theory Spec2Isabelle
  imports Complex_Main
begin

section \<open>Data model (utils/data\_models.py)\<close>

text \<open>
  Python floats are modelled as exact reals: every arithmetic operation below is the
  mathematical one and rounding is not modelled.  The exceptions the modelled code can
  raise carry their message (\<open>KeyError\<close>: the key); the messages of built-in
  exceptions are indicative only, nothing depends on them.
\<close>

datatype py_error =
  ValueError string | KeyError string | IndexError string | TypeError string
  | ZeroDivisionError string

text \<open>\<open>str(e)\<close>.\<close>

fun str_of :: "py_error \<Rightarrow> string" where
  "str_of (KeyError k) = [CHR 0x27] @ k @ [CHR 0x27]"
| "str_of (ValueError m) = m"
| "str_of (IndexError m) = m"
| "str_of (TypeError m) = m"
| "str_of (ZeroDivisionError m) = m"

definition list_index_error :: py_error where
  "list_index_error = IndexError ''list index out of range''"

definition operand_error :: py_error where
  "operand_error = TypeError ''unsupported operand type(s) for -''"

definition format_error :: py_error where
  "format_error = TypeError ''unsupported format string''"

text \<open>A dynamically typed value: a float, a string or a list of values.  Dicts with
  string keys are association lists, read with \<open>map_of\<close>.\<close>

datatype pyval = Num real | Str string | Lst "pyval list"

type_synonym dict = "(string \<times> pyval) list"

text \<open>\<open>d.get(key, default)\<close> and \<open>d[key]\<close>.\<close>

definition dict_get :: "dict \<Rightarrow> string \<Rightarrow> pyval \<Rightarrow> pyval" where
  "dict_get d k dflt = (case map_of d k of None \<Rightarrow> dflt | Some v \<Rightarrow> v)"

definition dict_item :: "dict \<Rightarrow> string \<Rightarrow> py_error + pyval" where
  "dict_item d k = (case map_of d k of None \<Rightarrow> Inl (KeyError k) | Some v \<Rightarrow> Inr v)"

text \<open>\<open>xs[i]\<close> on a list.\<close>

definition index :: "'a list \<Rightarrow> nat \<Rightarrow> py_error + 'a" where
  "index xs i = (if i < length xs then Inr (xs ! i) else Inl list_index_error)"

datatype ProblemType =
  GENERAL | KINEMATICS | PROJECTILE | FREE_FALL | PENDULUM | COLLISION | SPRING | CIRCULAR | OTHER

text \<open>\<open>PhysicsObject.velocity\<close> is a list of floats by default and a plain number when
  the parser passes one on; the code handles both.\<close>

datatype velocity = VNum real | VList "real list"

record PhysicsObject =
  name :: string
  mass :: real
  velocity :: velocity

text \<open>
  \<open>initial_conditions\<close> is a dict: its numeric parameters are kept as an association
  list of reals, its string entry \<open>'quantity_asked'\<close> as a field of its own
  (\<open>None\<close>: the key is absent).
\<close>

record PhysicsProblem =
  problem_type :: ProblemType
  objects :: "PhysicsObject list"
  initial_conditions :: "(string \<times> real) list"
  quantity_asked :: "string option"

text \<open>\<open>problem.initial_conditions.get(key, default)\<close> for a numeric parameter.\<close>

definition param :: "PhysicsProblem \<Rightarrow> string \<Rightarrow> real \<Rightarrow> real" where
  "param problem k dflt = (case map_of (initial_conditions problem) k of None \<Rightarrow> dflt | Some v \<Rightarrow> v)"

text \<open>
  The field \<open>method\<close> is named \<open>solution_method\<close> here.  \<open>steps\<close> and
  \<open>visualization_data\<close> only render the numbers of the result as text and are left out.
\<close>

record Solution =
  answer :: pyval
  unit :: pyval
  solution_method :: string
  confidence :: real

text \<open>\<open>simulation_result\<close> is a formatted string; the model keeps what is formatted.\<close>

datatype display =
  Text string | Quantity real string | FinalVelocities real real | ErrorText string

record VerificationResult =
  is_valid :: bool
  confidence :: real
  error :: "string option"
  analytical_result :: "pyval option"
  simulation_result :: "display option"
  agreement_score :: real

section \<open>Numeric helpers of the Python library\<close>

definition GRAVITY :: real where
  "GRAVITY = 9.81"

definition radians :: "real \<Rightarrow> real" where
  "radians a = a * pi / 180"

definition degrees :: "real \<Rightarrow> real" where
  "degrees a = a * 180 / pi"

text \<open>\<open>math.sqrt\<close> raises on a negative argument.\<close>

definition math_sqrt :: "real \<Rightarrow> py_error + real" where
  "math_sqrt x = (if x < 0 then Inl (ValueError ''math domain error'') else Inr (sqrt x))"

definition atan2 :: "real \<Rightarrow> real \<Rightarrow> real" where
  "atan2 y x =
     (if 0 < x then arctan (y / x)
      else if x < 0 \<and> 0 \<le> y then arctan (y / x) + pi
      else if x < 0 then arctan (y / x) - pi
      else if 0 < y then pi / 2
      else if y < 0 then - (pi / 2)
      else 0)"

text \<open>\<open>range(int(x))\<close> runs \<open>\<lfloor>x\<rfloor>\<close> times for \<open>x \<ge> 0\<close> and not at all otherwise.\<close>

definition range_int :: "real \<Rightarrow> nat" where
  "range_int x = nat \<lfloor>x\<rfloor>"

section \<open>Analytical solver (core/physics\_solver.py)\<close>

definition solve_projectile_motion :: "real \<Rightarrow> real \<Rightarrow> real \<Rightarrow> dict" where
  "solve_projectile_motion initial_velocity angle height =
     (let angle_rad = radians angle;
          v0x = initial_velocity * cos angle_rad;
          v0y = initial_velocity * sin angle_rad;
          a = 0.5 * GRAVITY;
          b = - v0y;
          c = - height;
          discriminant = b\<^sup>2 - 4 * a * c
      in if discriminant < 0 then
           [(''error'', Str (str_of (ValueError ''No real solution for time of flight'')))]
         else
           (let t_plus = (- b + sqrt discriminant) / (2 * a);
                time_flight = (if t_plus < 0 then (- b - sqrt discriminant) / (2 * a) else t_plus);
                range_x = v0x * time_flight;
                time_to_max = v0y / GRAVITY;
                max_height = height + v0y * time_to_max - 0.5 * GRAVITY * time_to_max\<^sup>2;
                final_velocity_x = v0x;
                final_velocity_y = v0y - GRAVITY * time_flight;
                final_velocity = sqrt (final_velocity_x\<^sup>2 + final_velocity_y\<^sup>2)
            in [(''range'', Num range_x), (''time_flight'', Num time_flight),
                (''max_height'', Num max_height), (''final_velocity'', Num final_velocity),
                (''final_velocity_x'', Num final_velocity_x),
                (''final_velocity_y'', Num final_velocity_y),
                (''initial_velocity'', Num initial_velocity), (''angle'', Num angle),
                (''height'', Num height)]))"

definition solve_free_fall :: "PhysicsProblem \<Rightarrow> dict" where
  "solve_free_fall problem =
     (let height = param problem ''height'' 0;
          initial_velocity = param problem ''initial_velocity'' 0;
          time = param problem ''time'' 0;
          asked = (case quantity_asked problem of None \<Rightarrow> ''final_velocity'' | Some q \<Rightarrow> q);
          g = 9.81
      in if time > 0 then
           (let distance = 0.5 * g * time * time;
                final_velocity = g * time
            in [(''distance'', Num distance), (''final_velocity'', Num final_velocity),
                (''time_fall'', Num time), (''initial_velocity'', Num initial_velocity),
                (''answer'', Num (if asked = ''distance'' then distance else final_velocity)),
                (''unit'', Str (if asked = ''distance'' then ''m'' else ''m/s''))])
         else
           (case math_sqrt (2 * g * height) of
              Inl e \<Rightarrow> [(''error'', Str (str_of e))]
            | Inr final_velocity \<Rightarrow>
               (case math_sqrt (2 * height / g) of
                  Inl e \<Rightarrow> [(''error'', Str (str_of e))]
                | Inr time_fall \<Rightarrow>
                    [(''distance'', Num height), (''final_velocity'', Num final_velocity),
                     (''time_fall'', Num time_fall), (''initial_velocity'', Num initial_velocity),
                     (''answer'', Num (if asked = ''final_velocity'' then final_velocity else height)),
                     (''unit'', Str (if asked = ''final_velocity'' then ''m/s'' else ''m''))])))"

definition solve_pendulum :: "real \<Rightarrow> real \<Rightarrow> py_error + dict" where
  "solve_pendulum length' initial_angle =
     (if length' \<le> 0 then Inl (ValueError ''Pendulum length must be a positive value.'')
      else
        (let period = 2 * pi * sqrt (length' / GRAVITY);
             height = length' * (1 - cos (radians initial_angle));
             max_velocity = sqrt (2 * GRAVITY * height);
             frequency = (if period > 0 then 1 / period else 0)
         in Inr [(''period'', Num period), (''max_velocity'', Num max_velocity),
                 (''frequency'', Num frequency), (''length'', Num length'),
                 (''initial_angle'', Num initial_angle)]))"

text \<open>\<open>v[0] if isinstance(v, list) else v\<close>.\<close>

fun first_component :: "velocity \<Rightarrow> py_error + real" where
  "first_component (VNum v) = Inr v"
| "first_component (VList vs) = index vs 0"

text \<open>The body of the \<open>try\<close> of \<open>_solve_collision\<close>.\<close>

definition solve_collision_try :: "real \<Rightarrow> real \<Rightarrow> velocity \<Rightarrow> velocity \<Rightarrow> py_error + dict" where
  "solve_collision_try mass_a mass_b velocity_a velocity_b =
     (case first_component velocity_a of Inl e \<Rightarrow> Inl e | Inr va \<Rightarrow>
     (case first_component velocity_b of Inl e \<Rightarrow> Inl e | Inr vb \<Rightarrow>
        if mass_a \<le> 0 \<or> mass_b \<le> 0 then Inl (ValueError ''Mass must be greater than zero'')
        else
          (let total_mass = mass_a + mass_b
           in if total_mass \<le> 0 then Inl (ValueError ''Total mass must be greater than zero'')
              else
                (let velocity_a_final = ((mass_a - mass_b) * va + 2 * mass_b * vb) / total_mass;
                     velocity_b_final = ((mass_b - mass_a) * vb + 2 * mass_a * va) / total_mass
                 in Inr [(''velocity_a_final'', Num velocity_a_final),
                         (''velocity_b_final'', Num velocity_b_final),
                         (''mass_a'', Num mass_a), (''mass_b'', Num mass_b),
                         (''velocity_a'', Num va), (''velocity_b'', Num vb),
                         (''answer'', Lst [Num velocity_a_final, Num velocity_b_final]),
                         (''unit'', Str ''m/s'')]))))"

text \<open>Every exception of the body is raised again as a \<open>ValueError\<close>.\<close>

definition solve_collision :: "real \<Rightarrow> real \<Rightarrow> velocity \<Rightarrow> velocity \<Rightarrow> py_error + dict" where
  "solve_collision mass_a mass_b velocity_a velocity_b =
     (case solve_collision_try mass_a mass_b velocity_a velocity_b of
        Inl e \<Rightarrow> Inl (ValueError (''Error in collision calculation: '' @ str_of e))
      | Inr d \<Rightarrow> Inr d)"

text \<open>\<open>result['answer'] = result[key]; result['unit'] = u\<close>.\<close>

definition choose_answer :: "dict \<Rightarrow> string \<Rightarrow> string \<Rightarrow> py_error + dict" where
  "choose_answer result key u =
     (case dict_item result key of
        Inl e \<Rightarrow> Inl e
      | Inr v \<Rightarrow> Inr ((''answer'', v) # (''unit'', Str u) # result))"

text \<open>Lines 23--85 of \<open>solve_problem\<close>: the result dict of the family's solver, \<open>None\<close>
  when no solver ran.  A non-empty dict is truthy, also the dict \<open>{'error': ...}\<close>.\<close>

definition solve_dispatch :: "PhysicsProblem \<Rightarrow> py_error + dict option" where
  "solve_dispatch problem =
     (if problem_type problem = PROJECTILE then
        (let result = solve_projectile_motion (param problem ''initial_velocity'' 0)
                        (param problem ''angle'' 0) (param problem ''height'' 0);
             asked = (case quantity_asked problem of None \<Rightarrow> ''range'' | Some q \<Rightarrow> q)
         in if result = [] then Inr (Some result)
            else map_sum id Some
              (if asked = ''range'' then choose_answer result ''range'' ''m''
               else if asked = ''max_height'' then choose_answer result ''max_height'' ''m''
               else if asked = ''time_flight'' then choose_answer result ''time_flight'' ''s''
               else choose_answer result ''range'' ''m''))
      else if problem_type problem = FREE_FALL then
        (let result = solve_free_fall problem;
             asked = (case quantity_asked problem of None \<Rightarrow> ''final_velocity'' | Some q \<Rightarrow> q)
         in if result = [] then Inr (Some result)
            else map_sum id Some
              (if asked = ''final_velocity'' then choose_answer result ''final_velocity'' ''m/s''
               else if asked = ''distance'' then choose_answer result ''distance'' ''m''
               else if asked = ''time_fall'' then choose_answer result ''time_fall'' ''s''
               else choose_answer result ''final_velocity'' ''m/s''))
      else if problem_type problem = PENDULUM then
        (case solve_pendulum (param problem ''length'' 0) (param problem ''initial_angle'' 30) of
           Inl e \<Rightarrow> Inl e
         | Inr result \<Rightarrow>
            (let asked = (case quantity_asked problem of None \<Rightarrow> ''period'' | Some q \<Rightarrow> q)
             in if result = [] then Inr (Some result)
                else map_sum id Some
                  (if asked = ''max_velocity'' then choose_answer result ''max_velocity'' ''m/s''
                   else choose_answer result ''period'' ''s'')))
      else if problem_type problem = COLLISION then
        (case objects problem of
           a # b # rest \<Rightarrow>
             map_sum id Some (solve_collision (mass a) (mass b) (velocity a) (velocity b))
         | _ \<Rightarrow> Inr None)
      else Inr None)"

text \<open>\<open>solve_problem\<close>: \<open>Inl\<close> is the exception it raises, \<open>Inr\<close> the \<open>Solution\<close>.\<close>

definition solve_problem :: "PhysicsProblem \<Rightarrow> py_error + Solution" where
  "solve_problem problem =
     (case solve_dispatch problem of
        Inl e \<Rightarrow> Inl e
      | Inr None \<Rightarrow> Inl (ValueError ''Could not solve problem'')
      | Inr (Some result) \<Rightarrow>
          if result = [] then Inl (ValueError ''Could not solve problem'')
          else
            (case dict_item result ''answer'' of Inl e \<Rightarrow> Inl e | Inr ans \<Rightarrow>
            (case dict_item result ''unit'' of Inl e \<Rightarrow> Inl e | Inr u \<Rightarrow>
               Inr \<lparr>answer = ans, unit = u, solution_method = ''analytical'', confidence = 1\<rparr>)))"

section \<open>Simulation (core/simulation\_engine.py)\<close>

text \<open>
  The rigid-body engine (PyBullet) is a parameter of the model.  A body is what
  \<open>getBasePositionAndOrientation\<close> and \<open>getBaseVelocity\<close> read; \<open>stepSimulation\<close>
  advances the one moving body of the scene by a time step, \<open>None\<close> standing for an
  exception raised by the engine.  \<open>connects\<close> is the outcome of \<open>_connect\<close>.
\<close>

type_synonym vec3 = "real \<times> real \<times> real"

record body =
  position :: vec3
  linear_velocity :: vec3

datatype scene = OverGround | OnPivot

record engine =
  connects :: bool
  stepSimulation :: "scene \<Rightarrow> body \<Rightarrow> body option"

definition pos_x :: "body \<Rightarrow> real" where
  "pos_x b = fst (position b)"

definition pos_z :: "body \<Rightarrow> real" where
  "pos_z b = snd (snd (position b))"

definition time_step :: real where
  "time_step = 1 / 240"

definition max_steps :: nat where
  "max_steps = 10000"

definition radius :: real where
  "radius = 0.1"

text \<open>The running values of the loop of \<open>simulate_projectile\<close>; \<open>samples\<close> is
  \<open>len(positions)\<close>.\<close>

record flight =
  max_height :: real
  range_x :: real
  time_flight :: real
  samples :: nat

text \<open>The \<open>for\<close> loop of lines 81--94, with the number of iterations left.\<close>

fun projectile_loop :: "(body \<Rightarrow> body option) \<Rightarrow> nat \<Rightarrow> body \<Rightarrow> flight \<Rightarrow> flight option" where
  "projectile_loop step 0 b f = Some f"
| "projectile_loop step (Suc n) b f =
     (case step b of
        None \<Rightarrow> None
      | Some b' \<Rightarrow>
          (let f' = \<lparr>max_height = max (max_height f) (pos_z b'),
                     range_x = max (range_x f) (pos_x b'),
                     time_flight = time_flight f + time_step,
                     samples = Suc (samples f)\<rparr>
           in if pos_z b' \<le> radius then Some f' else projectile_loop step n b' f'))"

definition projectile_start :: "real \<Rightarrow> real \<Rightarrow> real \<Rightarrow> body" where
  "projectile_start initial_velocity angle height =
     (let angle_rad = radians angle;
          vx = initial_velocity * cos angle_rad;
          vy = 0;
          vz = initial_velocity * sin angle_rad
      in \<lparr>position = (0, 0, height + radius), linear_velocity = (vx, vy, vz)\<rparr>)"

definition simulate_projectile :: "engine \<Rightarrow> real \<Rightarrow> real \<Rightarrow> real \<Rightarrow> dict option" where
  "simulate_projectile eng initial_velocity angle height =
     (if \<not> connects eng then None
      else
        (case projectile_loop (stepSimulation eng OverGround) max_steps
                (projectile_start initial_velocity angle height)
                \<lparr>max_height = height, range_x = 0, time_flight = 0, samples = 0\<rparr> of
           None \<Rightarrow> None
         | Some f \<Rightarrow>
             if samples f = 0 then None
             else Some [(''range'', Num (range_x f)),
                        (''max_height'', Num (max_height f - radius)),
                        (''time_flight'', Num (time_flight f))]))"

text \<open>The loop of lines 181--194; it computes nothing that is returned, and yields
  \<open>False\<close> when the engine raises.\<close>

fun free_fall_loop :: "(body \<Rightarrow> body option) \<Rightarrow> bool \<Rightarrow> nat \<Rightarrow> body \<Rightarrow> bool" where
  "free_fall_loop step until_ground 0 b = True"
| "free_fall_loop step until_ground (Suc n) b =
     (case step b of
        None \<Rightarrow> False
      | Some b' \<Rightarrow>
          if until_ground \<and> pos_z b' \<le> radius then True
          else free_fall_loop step until_ground n b')"

text \<open>Lines 121--140: distance, final velocity, time of fall and the theoretical time that
  sizes the run (only computed in the height-based branch).\<close>

definition free_fall_theory :: "real \<Rightarrow> real \<Rightarrow> py_error + (real \<times> real \<times> real \<times> real)" where
  "free_fall_theory height time =
     (let g = 9.81
      in if time > 0 then Inr (0.5 * g * time * time, g * time, time, 0)
         else
           (case math_sqrt (2 * height / g) of Inl e \<Rightarrow> Inl e | Inr theoretical_time \<Rightarrow>
           (case math_sqrt (2 * g * height) of Inl e \<Rightarrow> Inl e | Inr theoretical_velocity \<Rightarrow>
              Inr (height, theoretical_velocity, theoretical_time, theoretical_time))))"

definition simulate_free_fall :: "engine \<Rightarrow> real \<Rightarrow> real \<Rightarrow> real \<Rightarrow> dict option" where
  "simulate_free_fall eng height initial_velocity time =
     (if \<not> connects eng then None
      else
        (case free_fall_theory height time of
           Inl e \<Rightarrow> None
         | Inr (distance, final_velocity, time_fall, theoretical_time) \<Rightarrow>
             (let start = \<lparr>position = (0, 0, height),
                           linear_velocity = (0, 0, - initial_velocity)\<rparr>;
                  num_steps = (if time > 0 then range_int (time / time_step)
                               else range_int (theoretical_time / time_step))
              in if free_fall_loop (stepSimulation eng OverGround) (time = 0) num_steps start
                 then Some [(''distance'', Num distance), (''final_velocity'', Num final_velocity),
                            (''time_fall'', Num time_fall), (''height'', Num height),
                            (''initial_velocity'', Num initial_velocity),
                            (''theoretical_distance'', Num distance),
                            (''theoretical_velocity'', Num final_velocity)]
                 else None)))"

text \<open>The loop of lines 266--276: the samples (time, angle) of the bob, the \<open>i\<close>-th taken
  after the \<open>i\<close>-th step at the time of the step before.\<close>

fun pendulum_loop :: "(body \<Rightarrow> body option) \<Rightarrow> nat \<Rightarrow> nat \<Rightarrow> body \<Rightarrow> (real \<times> real) list option" where
  "pendulum_loop step 0 i b = Some []"
| "pendulum_loop step (Suc n) i b =
     (case step b of
        None \<Rightarrow> None
      | Some b' \<Rightarrow>
          (case pendulum_loop step n (Suc i) b' of
             None \<Rightarrow> None
           | Some rest \<Rightarrow>
               Some ((real i * time_step, degrees (atan2 (pos_x b') (- pos_z b'))) # rest)))"

text \<open>Lines 281--284: the times at which the angle changes sign.\<close>

fun zero_crossings :: "(real \<times> real) list \<Rightarrow> real list" where
  "zero_crossings ((t0, a0) # (t1, a1) # rest) =
     (if a0 * a1 < 0 then [t1] else []) @ zero_crossings ((t1, a1) # rest)"
| "zero_crossings [s] = []"
| "zero_crossings [] = []"

definition simulate_pendulum :: "engine \<Rightarrow> real \<Rightarrow> real \<Rightarrow> dict option" where
  "simulate_pendulum eng length' initial_angle =
     (if \<not> connects eng then None
      else
        (let angle_rad = radians initial_angle;
             x = length' * sin angle_rad;
             z = - length' * cos angle_rad;
             start = \<lparr>position = (x, 0, z), linear_velocity = (0, 0, 0)\<rparr>
         in case math_sqrt (length' / 9.81) of
              Inl e \<Rightarrow> None
            | Inr sq \<Rightarrow>
                (let period = 2 * pi * sq;
                     sim_time = 3 * period;
                     steps = range_int (sim_time / time_step)
                 in case pendulum_loop (stepSimulation eng OnPivot) steps 0 start of
                      None \<Rightarrow> None
                    | Some angles \<Rightarrow>
                        if angles = [] then None
                        else
                          (let crossings = zero_crossings angles;
                               measured =
                                 (if length crossings \<ge> 2
                                  then 2 * (last crossings - hd crossings)
                                         / (real (length crossings) - 1)
                                  else period)
                           in Some [(''period'', Num measured)]))))"

text \<open>\<open>simulate_collision\<close> divides by \<open>mass_a + mass_b\<close> unless the masses are equal; a
  division by zero is caught and makes it return \<open>None\<close>.\<close>

definition simulate_collision :: "real \<Rightarrow> real \<Rightarrow> real \<Rightarrow> real \<Rightarrow> dict option" where
  "simulate_collision mass_a mass_b velocity_a velocity_b =
     (if mass_a = mass_b then
        Some [(''velocity_a_final'', Num velocity_b), (''velocity_b_final'', Num velocity_a)]
      else if mass_a + mass_b = 0 then None
      else
        (let v_a_final = ((mass_a - mass_b) / (mass_a + mass_b)) * velocity_a
                         + ((2 * mass_b) / (mass_a + mass_b)) * velocity_b;
             v_b_final = ((2 * mass_a) / (mass_a + mass_b)) * velocity_a
                         + ((mass_b - mass_a) / (mass_a + mass_b)) * velocity_b
         in Some [(''velocity_a_final'', Num v_a_final), (''velocity_b_final'', Num v_b_final)]))"

fun type_name :: "ProblemType \<Rightarrow> string" where
  "type_name GENERAL = ''ProblemType.GENERAL''"
| "type_name KINEMATICS = ''ProblemType.KINEMATICS''"
| "type_name PROJECTILE = ''ProblemType.PROJECTILE''"
| "type_name FREE_FALL = ''ProblemType.FREE_FALL''"
| "type_name PENDULUM = ''ProblemType.PENDULUM''"
| "type_name COLLISION = ''ProblemType.COLLISION''"
| "type_name SPRING = ''ProblemType.SPRING''"
| "type_name CIRCULAR = ''ProblemType.CIRCULAR''"
| "type_name OTHER = ''ProblemType.OTHER''"

text \<open>The dict \<open>simulate\<close> returns for an exception caught in its own body.\<close>

definition simulation_failed :: "py_error \<Rightarrow> dict option" where
  "simulation_failed e = Some [(''error'', Str (''Simulation failed: '' @ str_of e))]"

definition simulate :: "engine \<Rightarrow> PhysicsProblem \<Rightarrow> dict option" where
  "simulate eng problem =
     (if problem_type problem = PROJECTILE then
        simulate_projectile eng (param problem ''initial_velocity'' 0)
          (param problem ''angle'' 45) (param problem ''height'' 0)
      else if problem_type problem = FREE_FALL then
        simulate_free_fall eng (param problem ''height'' 0)
          (param problem ''initial_velocity'' 0) (param problem ''time'' 0)
      else if problem_type problem = PENDULUM then
        simulate_pendulum eng (param problem ''length'' 1.0) (param problem ''initial_angle'' 30)
      else if problem_type problem = COLLISION then
        (case index (objects problem) 0 of Inl e \<Rightarrow> simulation_failed e | Inr ball_a \<Rightarrow>
        (case index (objects problem) 1 of Inl e \<Rightarrow> simulation_failed e | Inr ball_b \<Rightarrow>
        (case first_component (velocity ball_a) of Inl e \<Rightarrow> simulation_failed e | Inr va \<Rightarrow>
        (case first_component (velocity ball_b) of Inl e \<Rightarrow> simulation_failed e | Inr vb \<Rightarrow>
           simulate_collision (mass ball_a) (mass ball_b) va vb))))
      else simulation_failed (ValueError (''Unsupported problem type: '' @ type_name (problem_type problem))))"

section \<open>Verification (core/verification.py)\<close>

definition calculate_agreement_score :: "real \<Rightarrow> real \<Rightarrow> real" where
  "calculate_agreement_score analytical simulated =
     (if analytical = 0 \<and> simulated = 0 then 1
      else if analytical = 0 \<or> simulated = 0 then 0
      else (let relative_diff =
                  \<bar>analytical - simulated\<bar> / max \<bar>analytical\<bar> \<bar>simulated\<bar>
            in max 0 (1 - relative_diff)))"

text \<open>Python's \<open>v == 0\<close> on a dynamically typed value: only a number can equal \<open>0\<close>.\<close>

fun eq_zero :: "pyval \<Rightarrow> bool" where
  "eq_zero (Num x) = (x = 0)"
| "eq_zero (Str s) = False"
| "eq_zero (Lst xs) = False"

text \<open>
  The same function called on dynamically typed arguments: the two comparisons with
  \<open>0\<close> come first, and the subtraction raises \<open>TypeError\<close> unless both are numbers.
\<close>

fun agreement_dyn :: "pyval \<Rightarrow> pyval \<Rightarrow> py_error + real" where
  "agreement_dyn (Num a) (Num s) = Inr (calculate_agreement_score a s)"
| "agreement_dyn a s =
     (if eq_zero a \<and> eq_zero s then Inr 1
      else if eq_zero a \<or> eq_zero s then Inr 0
      else Inl operand_error)"

text \<open>Lines 41--73: the pair (analytical, simulated) and the unit, \<open>None\<close> for a problem
  type the verification does not support.\<close>

definition select_comparison ::
  "PhysicsProblem \<Rightarrow> Solution \<Rightarrow> dict \<Rightarrow> (pyval \<times> pyval \<times> string) option" where
  "select_comparison problem solution sim_result =
     (if problem_type problem = PROJECTILE then
        Some (answer solution, dict_get sim_result ''range'' (Num 0), ''m'')
      else if problem_type problem = FREE_FALL then
        (if quantity_asked problem = Some ''final_velocity'' then
           Some (answer solution, dict_get sim_result ''final_velocity'' (Num 0), ''m/s'')
         else Some (answer solution, dict_get sim_result ''distance'' (Num 0), ''m''))
      else if problem_type problem = PENDULUM then
        Some (answer solution, dict_get sim_result ''period'' (Num 0), ''s'')
      else if problem_type problem = COLLISION then
        Some (answer solution,
              Lst [dict_get sim_result ''velocity_a_final'' (Num 0),
                   dict_get sim_result ''velocity_b_final'' (Num 0)],
              ''m/s'')
      else None)"

text \<open>Lines 76--81.\<close>

definition agreement_of :: "pyval \<Rightarrow> pyval \<Rightarrow> py_error + real" where
  "agreement_of analytical simulated =
     (case (analytical, simulated) of
        (Lst a, Lst s) \<Rightarrow>
          (case index a 0 of Inl e \<Rightarrow> Inl e | Inr a0 \<Rightarrow>
          (case index s 0 of Inl e \<Rightarrow> Inl e | Inr s0 \<Rightarrow>
          (case agreement_dyn a0 s0 of Inl e \<Rightarrow> Inl e | Inr score0 \<Rightarrow>
          (case index a 1 of Inl e \<Rightarrow> Inl e | Inr a1 \<Rightarrow>
          (case index s 1 of Inl e \<Rightarrow> Inl e | Inr s1 \<Rightarrow>
          (case agreement_dyn a1 s1 of Inl e \<Rightarrow> Inl e | Inr score1 \<Rightarrow>
             Inr (score0 * 0.5 + score1 * 0.5)))))))
      | _ \<Rightarrow> agreement_dyn analytical simulated)"

text \<open>The format \<open>.2f\<close> applies to a number only.\<close>

fun format_2f :: "pyval \<Rightarrow> py_error + real" where
  "format_2f (Num x) = Inr x"
| "format_2f v = Inl format_error"

text \<open>\<open>simulated[i]\<close> on a dynamically typed value (never a string here).\<close>

fun item :: "pyval \<Rightarrow> nat \<Rightarrow> py_error + pyval" where
  "item (Lst xs) i = index xs i"
| "item v i = Inl (TypeError ''object is not subscriptable'')"

text \<open>Lines 84--87.\<close>

definition sim_display :: "PhysicsProblem \<Rightarrow> pyval \<Rightarrow> string \<Rightarrow> py_error + display" where
  "sim_display problem simulated u =
     (if problem_type problem = COLLISION then
        (case item simulated 0 of Inl e \<Rightarrow> Inl e | Inr s0 \<Rightarrow>
        (case format_2f s0 of Inl e \<Rightarrow> Inl e | Inr x0 \<Rightarrow>
        (case item simulated 1 of Inl e \<Rightarrow> Inl e | Inr s1 \<Rightarrow>
        (case format_2f s1 of Inl e \<Rightarrow> Inl e | Inr x1 \<Rightarrow>
           Inr (FinalVelocities x0 x1)))))
      else (case format_2f simulated of Inl e \<Rightarrow> Inl e | Inr x \<Rightarrow> Inr (Quantity x u)))"

text \<open>The body of the \<open>try\<close> of \<open>verify_solution\<close>, after the call of the simulator
  (\<open>not sim_result\<close> holds of \<open>None\<close> and of the empty dict).\<close>

definition verify_try :: "dict option \<Rightarrow> PhysicsProblem \<Rightarrow> Solution \<Rightarrow> py_error + VerificationResult" where
  "verify_try sim problem solution =
     (case sim of
        None \<Rightarrow>
          Inr \<lparr>is_valid = False, confidence = 0, error = Some ''Simulation failed to run'',
               analytical_result = None, simulation_result = Some (Text ''Simulation failed''),
               agreement_score = 0\<rparr>
      | Some sim_result \<Rightarrow>
          if sim_result = [] then
            Inr \<lparr>is_valid = False, confidence = 0, error = Some ''Simulation failed to run'',
                 analytical_result = None, simulation_result = Some (Text ''Simulation failed''),
                 agreement_score = 0\<rparr>
          else
            (case select_comparison problem solution sim_result of
               None \<Rightarrow>
                 Inr \<lparr>is_valid = False, confidence = 0,
                      error = Some ''Problem type not supported for verification'',
                      analytical_result = None,
                      simulation_result = Some (Text ''Unsupported problem type''),
                      agreement_score = 0\<rparr>
             | Some (analytical, simulated, u) \<Rightarrow>
                 (case agreement_of analytical simulated of
                    Inl e \<Rightarrow> Inl e
                  | Inr score \<Rightarrow>
                      (case sim_display problem simulated u of
                         Inl e \<Rightarrow> Inl e
                       | Inr shown \<Rightarrow>
                           Inr \<lparr>is_valid = (score > 0.8), confidence = score, error = None,
                                analytical_result = Some (answer solution),
                                simulation_result = Some shown,
                                agreement_score = score\<rparr>))))"

text \<open>\<open>verify_solution\<close> on the simulator's output: the \<open>except\<close> clause turns every
  exception of the body into a result.\<close>

definition verify_on :: "dict option \<Rightarrow> PhysicsProblem \<Rightarrow> Solution \<Rightarrow> VerificationResult" where
  "verify_on sim problem solution =
     (case verify_try sim problem solution of
        Inr r \<Rightarrow> r
      | Inl e \<Rightarrow>
          \<lparr>is_valid = False, confidence = 0, error = Some (str_of e),
           analytical_result = None, simulation_result = Some (ErrorText (str_of e)),
           agreement_score = 0\<rparr>)"

definition verify_solution :: "engine \<Rightarrow> PhysicsProblem \<Rightarrow> Solution \<Rightarrow> VerificationResult" where
  "verify_solution eng problem solution = verify_on (simulate eng problem) problem solution"

section \<open>Double precision\<close>

text \<open>
  The solver's collision formula once more, evaluated as the program evaluates it: in
  IEEE 754 binary64 with rounding to nearest, ties to even.  \<open>double x\<close> is the double
  nearest to the real \<open>x\<close>.  The spacing \<open>ulp x\<close> of the doubles around \<open>x\<close> is the least
  power of two \<open>u\<close>, starting from \<open>smallest_ulp\<close>, with \<open>|x| < significand_limit \<cdot> u\<close>,
  and \<open>x\<close> is rounded to a multiple of it.  Magnitudes from 2 to the power 1024 on,
  infinities and NaN are not modelled.
\<close>

definition round_half_even :: "real \<Rightarrow> int" where
  "round_half_even x =
     (let n = \<lfloor>x\<rfloor>; r = x - of_int n
      in if r < 1 / 2 then n else if 1 / 2 < r then n + 1 else if even n then n else n + 1)"

definition significand_limit :: real where
  "significand_limit = 2 ^ 53"

definition min_exponent :: nat where
  "min_exponent = 1074"

definition smallest_ulp :: real where
  "smallest_ulp = 1 / 2 ^ min_exponent"

fun ulp_from :: "nat \<Rightarrow> real \<Rightarrow> real \<Rightarrow> real" where
  "ulp_from 0 u x = u"
| "ulp_from (Suc n) u x = (if \<bar>x\<bar> < significand_limit * u then u else ulp_from n (2 * u) x)"

definition ulp :: "real \<Rightarrow> real" where
  "ulp x = ulp_from 2045 smallest_ulp x"

definition double :: "real \<Rightarrow> real" where
  "double x = of_int (round_half_even (x / ulp x)) * ulp x"

text \<open>
  \<open>_solve_collision\<close> (the body of its \<open>try\<close>) on doubles: every arithmetic operation of
  lines 365--370 is rounded.
\<close>

definition solve_collision_double :: "real \<Rightarrow> real \<Rightarrow> velocity \<Rightarrow> velocity \<Rightarrow> py_error + dict" where
  "solve_collision_double mass_a mass_b velocity_a velocity_b =
     (case first_component velocity_a of Inl e \<Rightarrow> Inl e | Inr va \<Rightarrow>
     (case first_component velocity_b of Inl e \<Rightarrow> Inl e | Inr vb \<Rightarrow>
        if mass_a \<le> 0 \<or> mass_b \<le> 0 then Inl (ValueError ''Mass must be greater than zero'')
        else
          (let total_mass = double (mass_a + mass_b)
           in if total_mass \<le> 0 then Inl (ValueError ''Total mass must be greater than zero'')
              else
                (let velocity_a_final =
                       double (double (double (double (mass_a - mass_b) * va)
                                       + double (double (2 * mass_b) * vb)) / total_mass);
                     velocity_b_final =
                       double (double (double (double (mass_b - mass_a) * vb)
                                       + double (double (2 * mass_a) * va)) / total_mass)
                 in Inr [(''velocity_a_final'', Num velocity_a_final),
                         (''velocity_b_final'', Num velocity_b_final),
                         (''mass_a'', Num mass_a), (''mass_b'', Num mass_b),
                         (''velocity_a'', Num va), (''velocity_b'', Num vb),
                         (''answer'', Lst [Num velocity_a_final, Num velocity_b_final]),
                         (''unit'', Str ''m/s'')]))))"

section \<open>Reference inputs\<close>

text \<open>
  ``The projectile crosses the ground plane within \<open>n\<close> steps'': some step of the first
  \<open>n\<close> leaves the body at a height of at most the radius.
\<close>

fun lands_within :: "(body \<Rightarrow> body option) \<Rightarrow> nat \<Rightarrow> body \<Rightarrow> bool" where
  "lands_within step 0 b = False"
| "lands_within step (Suc n) b =
     (case step b of None \<Rightarrow> False | Some b' \<Rightarrow> pos_z b' \<le> radius \<or> lands_within step n b')"

text \<open>
  The steps the loop of \<open>simulate_projectile\<close> runs (up to and including the first
  step that leaves the body at a height of at most the radius, all \<open>n\<close> when there is none)
  and the bodies read after each of the first \<open>k\<close> steps.
\<close>

fun steps_flown :: "(body \<Rightarrow> body option) \<Rightarrow> nat \<Rightarrow> body \<Rightarrow> nat" where
  "steps_flown step 0 b = 0"
| "steps_flown step (Suc n) b =
     (case step b of
        None \<Rightarrow> 0
      | Some b' \<Rightarrow> if pos_z b' \<le> radius then 1 else Suc (steps_flown step n b'))"

fun path :: "(body \<Rightarrow> body option) \<Rightarrow> nat \<Rightarrow> body \<Rightarrow> body list" where
  "path step 0 b = []"
| "path step (Suc k) b = (case step b of None \<Rightarrow> [] | Some b' \<Rightarrow> b' # path step k b')"

text \<open>
  An engine to run the simulator on: it always connects, never raises, and integrates
  the flight of a body that touches nothing by the semi-implicit Euler rule (velocity
  first, then position) under the gravity set in \<open>_connect\<close>, limiting the velocity
  along each coordinate to 100 m/s as the rigid-body engine does.
\<close>

definition max_coordinate_velocity :: real where
  "max_coordinate_velocity = 100"

definition clamp_velocity :: "real \<Rightarrow> real" where
  "clamp_velocity v = max (- max_coordinate_velocity) (min max_coordinate_velocity v)"

definition clamped_step :: "body \<Rightarrow> body" where
  "clamped_step b =
     (case (position b, linear_velocity b) of
        ((x, y, z), (vx, vy, vz)) \<Rightarrow>
          (let vx' = clamp_velocity vx;
               vy' = clamp_velocity vy;
               vz' = clamp_velocity (vz - GRAVITY * time_step)
           in \<lparr>position = (x + vx' * time_step, y + vy' * time_step, z + vz' * time_step),
               linear_velocity = (vx', vy', vz')\<rparr>))"

definition reference_engine :: engine where
  "reference_engine = \<lparr>connects = True, stepSimulation = (\<lambda>sc b. Some (clamped_step b))\<rparr>"

text \<open>A collision problem that lost its second object, and the answer ``both at rest''.\<close>

definition lone_ball_problem :: PhysicsProblem where
  "lone_ball_problem =
     \<lparr>problem_type = COLLISION,
      objects = [\<lparr>name = ''Ball A'', mass = 1, velocity = VNum 0\<rparr>],
      initial_conditions = [], quantity_asked = Some ''final_velocities''\<rparr>"

definition rest_solution :: Solution where
  "rest_solution = \<lparr>answer = Lst [Num 0, Num 0], unit = Str ''m/s'', solution_method = ''analytical'',
                    confidence = 1\<rparr>"

definition swap_solution :: Solution where
  "swap_solution = \<lparr>answer = Lst [Num 0, Num 5], unit = Str ''m/s'', solution_method = ''analytical'',
                    confidence = 1\<rparr>"

definition two_balls :: "real \<Rightarrow> real \<Rightarrow> real \<Rightarrow> real \<Rightarrow> PhysicsProblem" where
  "two_balls mass_a velocity_a mass_b velocity_b =
     \<lparr>problem_type = COLLISION,
      objects = [\<lparr>name = ''Ball A'', mass = mass_a, velocity = VNum velocity_a\<rparr>,
                 \<lparr>name = ''Ball B'', mass = mass_b, velocity = VNum velocity_b\<rparr>],
      initial_conditions = [], quantity_asked = Some ''final_velocities''\<rparr>"

text \<open>Free-fall problems: from the ground, from below the ground, from 20 m.\<close>

definition ground_level_drop :: PhysicsProblem where
  "ground_level_drop =
     \<lparr>problem_type = FREE_FALL, objects = [],
      initial_conditions = [(''height'', 0), (''time'', 0)],
      quantity_asked = Some ''final_velocity''\<rparr>"

definition below_ground_drop :: PhysicsProblem where
  "below_ground_drop =
     \<lparr>problem_type = FREE_FALL, objects = [],
      initial_conditions = [(''height'', - 5)],
      quantity_asked = Some ''final_velocity''\<rparr>"

definition drop_20m :: PhysicsProblem where
  "drop_20m =
     \<lparr>problem_type = FREE_FALL, objects = [],
      initial_conditions = [(''height'', 20)],
      quantity_asked = Some ''final_velocity''\<rparr>"

text \<open>The range over level ground as the specification writes it:
  \<open>v0\<^sup>2 \<cdot> sin(2\<theta>) / g\<close>, the angle in degrees.\<close>

definition closed_form_range :: "real \<Rightarrow> real \<Rightarrow> real" where
  "closed_form_range v0 angle = v0\<^sup>2 * sin (2 * radians angle) / GRAVITY"

section \<open>Agreement score and validity\<close>

text \<open>
  Claim C10.  The scalar agreement score is symmetric in its two arguments and lies
  between 0 and 1; it is 1 on \<open>(x, x)\<close> for every nonzero \<open>x\<close> and on \<open>(0, 0)\<close>, and 0 on
  \<open>(x, 0)\<close> for every nonzero \<open>x\<close>.
\<close>

theorem agreement_score_symmetric_bounded:
  "calculate_agreement_score a s = calculate_agreement_score s a
   \<and> 0 \<le> calculate_agreement_score a s \<and> calculate_agreement_score a s \<le> 1
   \<and> (x \<noteq> 0 \<longrightarrow> calculate_agreement_score x x = 1)
   \<and> calculate_agreement_score 0 0 = 1
   \<and> (x \<noteq> 0 \<longrightarrow> calculate_agreement_score x 0 = 0)"
proof -
  have sym: "calculate_agreement_score a s = calculate_agreement_score s a"
    by (auto simp: calculate_agreement_score_def Let_def abs_minus_commute max.commute)
  have "0 \<le> \<bar>a - s\<bar> / max \<bar>a\<bar> \<bar>s\<bar>"
    by (simp add: divide_nonneg_nonneg)
  then have bounds: "0 \<le> calculate_agreement_score a s \<and> calculate_agreement_score a s \<le> 1"
    by (simp add: calculate_agreement_score_def Let_def)
  from sym bounds show ?thesis
    by (simp add: calculate_agreement_score_def)
qed

theorem agreement_score_symmetric_bounded_witness:
  "(2::real) \<noteq> 0 \<and> calculate_agreement_score 2 2 = 1 \<and> calculate_agreement_score 2 0 = 0
   \<and> calculate_agreement_score 10 8 = calculate_agreement_score 8 10
   \<and> 0 \<le> calculate_agreement_score 10 8 \<and> calculate_agreement_score 10 8 \<le> 1"
  using agreement_score_symmetric_bounded [of 10 8 2] by simp

lemma verify_two_balls:
  "verify_solution eng (two_balls 1 5 1 0) swap_solution
     = \<lparr>is_valid = True, confidence = 1, error = None,
        analytical_result = Some (Lst [Num 0, Num 5]),
        simulation_result = Some (FinalVelocities 0 5), agreement_score = 1\<rparr>"
proof -
  let ?d = "[(''velocity_a_final'', Num 0), (''velocity_b_final'', Num 5)]"
  have sim: "simulate eng (two_balls 1 5 1 0) = Some ?d"
    by (simp add: simulate_def two_balls_def index_def simulate_collision_def)
  have sel: "select_comparison (two_balls 1 5 1 0) swap_solution ?d
             = Some (Lst [Num 0, Num 5], Lst [Num 0, Num 5], ''m/s'')"
    by (simp add: select_comparison_def two_balls_def swap_solution_def dict_get_def)
  have agr: "agreement_of (Lst [Num 0, Num 5]) (Lst [Num 0, Num 5]) = Inr 1"
    by (simp add: agreement_of_def calculate_agreement_score_def index_def)
  have shown: "sim_display (two_balls 1 5 1 0) (Lst [Num 0, Num 5]) ''m/s''
      = Inr (FinalVelocities 0 5)"
    by (simp add: sim_display_def two_balls_def index_def)
  have ans: "answer swap_solution = Lst [Num 0, Num 5]"
    by (simp add: swap_solution_def)
  show ?thesis
    by (simp add: sim verify_solution_def verify_on_def verify_try_def sel agr shown ans)
qed

text \<open>
  Claim C2.  Unless both values are zero the scalar agreement score is
  \<open>max(0, 1 - |a - s| / max(|a|, |s|))\<close>; it is 1 when both are zero and 0 when exactly
  one is zero.  For a collision, where the answer is the list of two final velocities,
  the agreement score of the verification is the average, with weights 0.5 and 0.5, of
  the scalar scores of the two paired components.
\<close>

theorem agreement_score_formula:
  "(a \<noteq> 0 \<or> s \<noteq> 0 \<longrightarrow>
      calculate_agreement_score a s = max 0 (1 - \<bar>a - s\<bar> / max \<bar>a\<bar> \<bar>s\<bar>))
   \<and> calculate_agreement_score 0 0 = 1
   \<and> (x \<noteq> 0 \<longrightarrow> calculate_agreement_score x 0 = 0 \<and> calculate_agreement_score 0 x = 0)
   \<and> (problem_type problem = COLLISION \<and> answer solution = Lst [Num a0, Num a1]
        \<and> simulate eng problem = Some d \<and> d \<noteq> []
        \<and> dict_get d ''velocity_a_final'' (Num 0) = Num s0
        \<and> dict_get d ''velocity_b_final'' (Num 0) = Num s1
      \<longrightarrow> error (verify_solution eng problem solution) = None
          \<and> agreement_score (verify_solution eng problem solution)
              = calculate_agreement_score a0 s0 * 0.5 + calculate_agreement_score a1 s1 * 0.5)"
proof -
  have scalar: "(a \<noteq> 0 \<or> s \<noteq> 0 \<longrightarrow>
      calculate_agreement_score a s = max 0 (1 - \<bar>a - s\<bar> / max \<bar>a\<bar> \<bar>s\<bar>))
   \<and> calculate_agreement_score 0 0 = 1
   \<and> (x \<noteq> 0 \<longrightarrow> calculate_agreement_score x 0 = 0 \<and> calculate_agreement_score 0 x = 0)"
    by (auto simp: calculate_agreement_score_def Let_def)
  have vector: "error (verify_solution eng problem solution) = None
          \<and> agreement_score (verify_solution eng problem solution)
              = calculate_agreement_score a0 s0 * 0.5 + calculate_agreement_score a1 s1 * 0.5"
    if h: "problem_type problem = COLLISION" "answer solution = Lst [Num a0, Num a1]"
        "simulate eng problem = Some d" "d \<noteq> []"
        "dict_get d ''velocity_a_final'' (Num 0) = Num s0"
        "dict_get d ''velocity_b_final'' (Num 0) = Num s1"
  proof -
    have sel: "select_comparison problem solution d
        = Some (Lst [Num a0, Num a1], Lst [Num s0, Num s1], ''m/s'')"
      using h by (simp add: select_comparison_def)
    have agr: "agreement_of (Lst [Num a0, Num a1]) (Lst [Num s0, Num s1])
        = Inr (calculate_agreement_score a0 s0 * 0.5 + calculate_agreement_score a1 s1 * 0.5)"
      by (simp add: agreement_of_def index_def)
    have shown: "sim_display problem (Lst [Num s0, Num s1]) ''m/s'' = Inr (FinalVelocities s0 s1)"
      using h(1) by (simp add: sim_display_def index_def)
    show ?thesis
      using h(3,4) by (simp add: verify_solution_def verify_on_def verify_try_def sel agr shown)
  qed
  from scalar vector show ?thesis by blast
qed

theorem agreement_score_formula_witness:
  "(3::real) \<noteq> 0 \<and> calculate_agreement_score 4 3 = 3 / 4
   \<and> calculate_agreement_score 3 0 = 0 \<and> calculate_agreement_score 0 3 = 0
   \<and> problem_type (two_balls 1 5 1 0) = COLLISION
   \<and> answer swap_solution = Lst [Num 0, Num 5]
   \<and> simulate reference_engine (two_balls 1 5 1 0)
       = Some [(''velocity_a_final'', Num 0), (''velocity_b_final'', Num 5)]
   \<and> agreement_score (verify_solution reference_engine (two_balls 1 5 1 0) swap_solution)
       = calculate_agreement_score 0 0 * 0.5 + calculate_agreement_score 5 5 * 0.5"
proof -
  let ?d = "[(''velocity_a_final'', Num 0), (''velocity_b_final'', Num 5)]"
  have sim: "simulate reference_engine (two_balls 1 5 1 0) = Some ?d"
    by (simp add: simulate_def two_balls_def index_def simulate_collision_def)
  have ty: "problem_type (two_balls 1 5 1 0) = COLLISION" by (simp add: two_balls_def)
  have ans: "answer swap_solution = Lst [Num 0, Num 5]" by (simp add: swap_solution_def)
  have g: "dict_get ?d ''velocity_a_final'' (Num 0) = Num 0"
    "dict_get ?d ''velocity_b_final'' (Num 0) = Num 5" "?d \<noteq> []"
    by (simp_all add: dict_get_def)
  from agreement_score_formula [of 4 3 3 "two_balls 1 5 1 0" swap_solution 0 5 reference_engine ?d 0 5]
    sim ty ans g
  show ?thesis by simp
qed

text \<open>
  For a scalar answer the agreement score of the verification is the scalar score of the
  answer and the simulated quantity.
\<close>

lemma scalar_answer_agreement:
  assumes "select_comparison problem solution d = Some (Num a, Num s, u)"
    and "simulate eng problem = Some d" and "d \<noteq> []" and "problem_type problem \<noteq> COLLISION"
  shows "error (verify_solution eng problem solution) = None
       \<and> agreement_score (verify_solution eng problem solution) = calculate_agreement_score a s"
proof -
  have agr: "agreement_of (Num a) (Num s) = Inr (calculate_agreement_score a s)"
    by (simp add: agreement_of_def)
  have shown: "sim_display problem (Num s) u = Inr (Quantity s u)"
    using assms(4) by (simp add: sim_display_def)
  show ?thesis
    using assms(2,3) by (simp add: verify_solution_def verify_on_def verify_try_def assms(1) agr shown)
qed

text \<open>
  Claim C1.  Whenever \<open>verify_solution\<close> returns a result whose \<open>error\<close> is \<open>None\<close>, that
  result has \<open>is_valid = (agreement_score > 0.8)\<close> and \<open>confidence = agreement_score\<close>.
\<close>

theorem valid_iff_agreement_above_threshold:
  assumes "error (verify_solution eng problem solution) = None"
  shows "is_valid (verify_solution eng problem solution)
           = (agreement_score (verify_solution eng problem solution) > 0.8)
       \<and> VerificationResult.confidence (verify_solution eng problem solution)
           = agreement_score (verify_solution eng problem solution)"
  using assms
  by (auto simp: verify_solution_def verify_on_def verify_try_def
      split: sum.splits option.splits if_splits prod.splits)

theorem valid_iff_agreement_above_threshold_witness:
  "error (verify_solution reference_engine (two_balls 1 5 1 0) swap_solution) = None
   \<and> is_valid (verify_solution reference_engine (two_balls 1 5 1 0) swap_solution)
   \<and> VerificationResult.confidence
        (verify_solution reference_engine (two_balls 1 5 1 0) swap_solution) = 1
   \<and> agreement_score (verify_solution reference_engine (two_balls 1 5 1 0) swap_solution) = 1"
proof -
  have e: "error (verify_solution reference_engine (two_balls 1 5 1 0) swap_solution) = None"
    by (simp add: verify_two_balls)
  from valid_iff_agreement_above_threshold [OF e] e show ?thesis
    by (simp add: verify_two_balls)
qed

section \<open>Failures of the simulator inside the verification\<close>

text \<open>
  \<open>verify_solution\<close> is total: it returns a result for every simulator output.  When the
  simulator returns \<open>None\<close>, or when the comparison raises, the result is invalid with
  confidence 0 and the error filled in.
\<close>

lemma verify_on_no_simulation:
  "verify_on None problem solution
     = \<lparr>is_valid = False, confidence = 0, error = Some ''Simulation failed to run'',
        analytical_result = None, simulation_result = Some (Text ''Simulation failed''),
        agreement_score = 0\<rparr>"
  by (simp add: verify_on_def verify_try_def)

lemma verify_on_exception:
  "verify_try sim problem solution = Inl e \<Longrightarrow>
     verify_on sim problem solution
       = \<lparr>is_valid = False, confidence = 0, error = Some (str_of e),
          analytical_result = None, simulation_result = Some (ErrorText (str_of e)),
          agreement_score = 0\<rparr>"
  by (simp add: verify_on_def)

text \<open>
  Claim C3.  The claim asks that \<open>verify_solution\<close>, whenever the simulator fails,
  returns \<open>is_valid = False\<close>, \<open>confidence = 0\<close> and the error filled in.  When \<open>simulate\<close>
  catches an exception of its own it returns the dict \<open>{'error': ...}\<close>, which is truthy and
  which \<open>verify_solution\<close> does not look into: for a collision problem with a single
  object the simulator fails with an index error, every compared velocity defaults to 0,
  and the answer \<open>[0, 0]\<close> is accepted as valid with confidence 1 and no error.
\<close>

theorem verify_accepts_failed_simulation:
  "simulate eng lone_ball_problem
     = Some [(''error'', Str ''Simulation failed: list index out of range'')]
   \<and> verify_solution eng lone_ball_problem rest_solution
     = \<lparr>is_valid = True, confidence = 1, error = None,
        analytical_result = Some (Lst [Num 0, Num 0]),
        simulation_result = Some (FinalVelocities 0 0), agreement_score = 1\<rparr>"
proof -
  have sim: "simulate eng lone_ball_problem
     = Some [(''error'', Str ''Simulation failed: list index out of range'')]"
    by (simp add: simulate_def lone_ball_problem_def simulation_failed_def list_index_error_def index_def)
  have sel: "select_comparison lone_ball_problem rest_solution
               [(''error'', Str ''Simulation failed: list index out of range'')]
             = Some (Lst [Num 0, Num 0], Lst [Num 0, Num 0], ''m/s'')"
    by (simp add: select_comparison_def lone_ball_problem_def rest_solution_def dict_get_def)
  have agr: "agreement_of (Lst [Num 0, Num 0]) (Lst [Num 0, Num 0]) = Inr 1"
    by (simp add: agreement_of_def calculate_agreement_score_def index_def)
  have shown: "sim_display lone_ball_problem (Lst [Num 0, Num 0]) ''m/s'' = Inr (FinalVelocities 0 0)"
    by (simp add: sim_display_def lone_ball_problem_def index_def)
  have ans: "answer rest_solution = Lst [Num 0, Num 0]"
    by (simp add: rest_solution_def)
  show ?thesis
    by (simp add: sim verify_solution_def verify_on_def verify_try_def sel agr shown ans)
qed

section \<open>Free fall\<close>

text \<open>
  Claim C4, as stated: a free-fall problem with height \<open>\<le> 0\<close> and time \<open>\<le> 0\<close> makes
  \<open>solve_problem\<close> fail and produce no \<open>Solution\<close>.  At height 0 and time 0 the solver
  returns a \<open>Solution\<close>, with answer 0 m/s.
\<close>

theorem ground_level_free_fall_is_solved:
  "param ground_level_drop ''height'' 0 \<le> 0 \<and> param ground_level_drop ''time'' 0 \<le> 0
   \<and> solve_problem ground_level_drop
       = Inr \<lparr>answer = Num 0, unit = Str ''m/s'', solution_method = ''analytical'', confidence = 1\<rparr>"
  by (simp add: ground_level_drop_def param_def solve_problem_def solve_dispatch_def
      solve_free_fall_def math_sqrt_def choose_answer_def dict_item_def Let_def)

lemma solve_free_fall_negative_height:
  assumes "param problem ''height'' 0 < 0" "param problem ''time'' 0 \<le> 0"
  shows "solve_free_fall problem = [(''error'', Str ''math domain error'')]"
  using assms by (simp add: solve_free_fall_def math_sqrt_def Let_def)

text \<open>
  Claim C4, amended.  A free-fall problem with height \<open>< 0\<close> and time \<open>\<le> 0\<close> makes
  \<open>solve_problem\<close> fail with an error and produce no \<open>Solution\<close>.
\<close>

theorem negative_height_free_fall_fails:
  assumes "problem_type problem = FREE_FALL"
    and "param problem ''height'' 0 < 0" and "param problem ''time'' 0 \<le> 0"
  shows "\<exists>e. solve_problem problem = Inl e"
  using assms(1)
  by (simp add: solve_problem_def solve_dispatch_def solve_free_fall_negative_height [OF assms(2,3)]
      choose_answer_def dict_item_def Let_def)

theorem negative_height_free_fall_fails_witness:
  "problem_type below_ground_drop = FREE_FALL \<and> param below_ground_drop ''height'' 0 < 0
   \<and> param below_ground_drop ''time'' 0 \<le> 0
   \<and> (\<exists>e. solve_problem below_ground_drop = Inl e)"
proof -
  have h: "problem_type below_ground_drop = FREE_FALL" "param below_ground_drop ''height'' 0 < 0"
    "param below_ground_drop ''time'' 0 \<le> 0"
    by (simp_all add: below_ground_drop_def param_def)
  from negative_height_free_fall_fails [OF h] h show ?thesis by blast
qed

text \<open>
  The error is not a parameter error: the square root fails inside \<open>_solve_free_fall\<close>,
  which returns the dict \<open>{'error': ...}\<close>, and \<open>solve_problem\<close> raises \<open>KeyError\<close> when it
  reads the answer from that dict.  At height 0 the solver answers 0 whatever quantity
  is asked.
\<close>

lemma below_ground_drop_error:
  "solve_problem below_ground_drop = Inl (KeyError ''final_velocity'')"
  by (simp add: below_ground_drop_def param_def solve_problem_def solve_dispatch_def
      solve_free_fall_def math_sqrt_def choose_answer_def dict_item_def Let_def)

lemma ground_level_free_fall_answer:
  assumes "problem_type problem = FREE_FALL"
    and "param problem ''height'' 0 = 0" and "param problem ''time'' 0 \<le> 0"
  shows "\<exists>u. solve_problem problem
           = Inr \<lparr>answer = Num 0, unit = Str u, solution_method = ''analytical'', confidence = 1\<rparr>"
  using assms
  by (simp add: solve_problem_def solve_dispatch_def solve_free_fall_def math_sqrt_def
      choose_answer_def dict_item_def Let_def)

lemma free_fall_loop_total:
  "\<forall>b. step b \<noteq> None \<Longrightarrow> free_fall_loop step until_ground n start"
  by (induction n arbitrary: start) (auto split: option.splits)

lemma simulate_free_fall_returns:
  assumes "connects eng" and "\<forall>b. stepSimulation eng OverGround b \<noteq> None"
    and "0 < time \<or> 0 \<le> height"
  shows "\<exists>d. simulate_free_fall eng height initial_velocity time = Some d"
  using assms(1,3) free_fall_loop_total [OF assms(2)]
  by (auto simp: simulate_free_fall_def free_fall_theory_def math_sqrt_def Let_def)

lemma simulate_free_fall_time:
  assumes "simulate_free_fall eng height initial_velocity time = Some d" and "0 < time"
  shows "d = [(''distance'', Num (0.5 * 9.81 * time * time)),
              (''final_velocity'', Num (9.81 * time)), (''time_fall'', Num time),
              (''height'', Num height), (''initial_velocity'', Num initial_velocity),
              (''theoretical_distance'', Num (0.5 * 9.81 * time * time)),
              (''theoretical_velocity'', Num (9.81 * time))]"
  using assms
  by (auto simp: simulate_free_fall_def free_fall_theory_def Let_def split: if_splits)

lemma simulate_free_fall_height:
  assumes "simulate_free_fall eng height initial_velocity time = Some d" and "\<not> 0 < time"
  shows "0 \<le> height \<and>
         d = [(''distance'', Num height),
              (''final_velocity'', Num (sqrt (2 * 9.81 * height))),
              (''time_fall'', Num (sqrt (2 * height / 9.81))),
              (''height'', Num height), (''initial_velocity'', Num initial_velocity),
              (''theoretical_distance'', Num height),
              (''theoretical_velocity'', Num (sqrt (2 * 9.81 * height)))]"
  using assms
  by (auto simp: simulate_free_fall_def free_fall_theory_def math_sqrt_def Let_def
      split: if_splits)

text \<open>
  Claim C6.  Whenever the simulator reports a result for a free-fall problem, its
  distance, final velocity and time of fall are those of the analytical solver on the
  same problem, and they are the closed forms: with a time \<open>t > 0\<close>, distance
  \<open>0.5 \<cdot> g \<cdot> t\<^sup>2\<close> and final velocity \<open>g \<cdot> t\<close>; otherwise final velocity
  \<open>\<surd>(2 \<cdot> g \<cdot> h)\<close>, time of fall \<open>\<surd>(2 \<cdot> h / g)\<close> and distance \<open>h\<close>.  (By
  \<open>simulate_free_fall_returns\<close> the simulator does report a result when the engine connects
  and never raises and \<open>t > 0\<close> or \<open>h \<ge> 0\<close>.)
\<close>

theorem free_fall_simulation_is_closed_form:
  assumes "problem_type problem = FREE_FALL" and "simulate eng problem = Some d"
  shows "map_of d ''distance'' = map_of (solve_free_fall problem) ''distance''
       \<and> map_of d ''final_velocity'' = map_of (solve_free_fall problem) ''final_velocity''
       \<and> map_of d ''time_fall'' = map_of (solve_free_fall problem) ''time_fall''
       \<and> (if 0 < param problem ''time'' 0 then
            map_of d ''distance''
              = Some (Num (0.5 * 9.81 * (param problem ''time'' 0)\<^sup>2))
            \<and> map_of d ''final_velocity'' = Some (Num (9.81 * param problem ''time'' 0))
          else
            map_of d ''final_velocity''
              = Some (Num (sqrt (2 * 9.81 * param problem ''height'' 0)))
            \<and> map_of d ''time_fall''
              = Some (Num (sqrt (2 * param problem ''height'' 0 / 9.81)))
            \<and> map_of d ''distance'' = Some (Num (param problem ''height'' 0)))"
proof -
  let ?h = "param problem ''height'' 0" and ?v = "param problem ''initial_velocity'' 0"
  let ?t = "param problem ''time'' 0"
  from assms have sim: "simulate_free_fall eng ?h ?v ?t = Some d"
    by (simp add: simulate_def)
  show ?thesis
  proof (cases "0 < ?t")
    case True
    from simulate_free_fall_time [OF sim True] True show ?thesis
      by (simp add: solve_free_fall_def Let_def power2_eq_square)
  next
    case False
    from simulate_free_fall_height [OF sim False] False show ?thesis
      by (simp add: solve_free_fall_def math_sqrt_def Let_def)
  qed
qed

theorem free_fall_simulation_is_closed_form_witness:
  "problem_type drop_20m = FREE_FALL
   \<and> simulate reference_engine drop_20m
       = Some [(''distance'', Num 20),
              (''final_velocity'', Num (sqrt (2 * 9.81 * 20))),
              (''time_fall'', Num (sqrt (2 * 20 / 9.81))),
              (''height'', Num 20), (''initial_velocity'', Num 0),
              (''theoretical_distance'', Num 20),
              (''theoretical_velocity'', Num (sqrt (2 * 9.81 * 20)))]
   \<and> map_of (solve_free_fall drop_20m) ''final_velocity'' = Some (Num (sqrt (2 * 9.81 * 20)))
   \<and> map_of (solve_free_fall drop_20m) ''time_fall'' = Some (Num (sqrt (2 * 20 / 9.81)))
   \<and> map_of (solve_free_fall drop_20m) ''distance'' = Some (Num 20)"
proof -
  have ty: "problem_type drop_20m = FREE_FALL"
    by (simp add: drop_20m_def)
  have par: "param drop_20m ''height'' 0 = 20" "param drop_20m ''initial_velocity'' 0 = 0"
    "param drop_20m ''time'' 0 = 0"
    by (simp_all add: drop_20m_def param_def)
  have total: "\<forall>b. stepSimulation reference_engine OverGround b \<noteq> None"
    by (simp add: reference_engine_def)
  have con: "connects reference_engine"
    by (simp add: reference_engine_def)
  obtain d where d: "simulate_free_fall reference_engine 20 0 0 = Some d"
    using simulate_free_fall_returns [OF con total, of 0 20 0] by auto
  from simulate_free_fall_height [OF d] have dv: "d = [(''distance'', Num 20),
              (''final_velocity'', Num (sqrt (2 * 9.81 * 20))),
              (''time_fall'', Num (sqrt (2 * 20 / 9.81))),
              (''height'', Num 20), (''initial_velocity'', Num 0),
              (''theoretical_distance'', Num 20),
              (''theoretical_velocity'', Num (sqrt (2 * 9.81 * 20)))]"
    by simp
  have sim: "simulate reference_engine drop_20m = Some d"
    by (simp add: simulate_def ty par d)
  from free_fall_simulation_is_closed_form [OF ty sim] ty sim show ?thesis
    by (simp add: dv par)
qed

section \<open>Collisions\<close>

text \<open>
  Claim C7.  For a collision problem whose first two objects have positive mass, the
  solver returns the pair of final velocities \<open>[vA', vB']\<close>, and momentum is conserved
  exactly: \<open>mA \<cdot> vA + mB \<cdot> vB = mA \<cdot> vA' + mB \<cdot> vB'\<close>.
\<close>

theorem collision_conserves_momentum:
  assumes "problem_type problem = COLLISION" and "objects problem = a # b # rest"
    and "0 < mass a" and "0 < mass b"
    and "first_component (velocity a) = Inr va" and "first_component (velocity b) = Inr vb"
  shows "\<exists>va' vb'.
           solve_problem problem
             = Inr \<lparr>answer = Lst [Num va', Num vb'], unit = Str ''m/s'', solution_method = ''analytical'',
                    confidence = 1\<rparr>
           \<and> mass a * va + mass b * vb = mass a * va' + mass b * vb'"
proof -
  let ?M = "mass a + mass b"
  let ?va' = "((mass a - mass b) * va + 2 * mass b * vb) / ?M"
  let ?vb' = "((mass b - mass a) * vb + 2 * mass a * va) / ?M"
  from assms(3,4) have M: "0 < ?M" by simp
  have "solve_problem problem
      = Inr \<lparr>answer = Lst [Num ?va', Num ?vb'], unit = Str ''m/s'', solution_method = ''analytical'',
             confidence = 1\<rparr>"
    using assms M
    by (simp add: solve_problem_def solve_dispatch_def solve_collision_def
        solve_collision_try_def dict_item_def Let_def)
  moreover have "mass a * ?va' + mass b * ?vb'
      = (mass a * va + mass b * vb) * ?M / ?M"
    by (simp add: add_divide_distrib [symmetric] algebra_simps)
  then have "mass a * va + mass b * vb = mass a * ?va' + mass b * ?vb'"
    using M by simp
  ultimately show ?thesis by blast
qed

theorem collision_conserves_momentum_witness:
  "problem_type (two_balls 2 3 1 0) = COLLISION
   \<and> (\<exists>va' vb'. solve_problem (two_balls 2 3 1 0)
         = Inr \<lparr>answer = Lst [Num va', Num vb'], unit = Str ''m/s'', solution_method = ''analytical'',
                confidence = 1\<rparr>
       \<and> (2::real) * 3 + 1 * 0 = 2 * va' + 1 * vb')"
proof -
  have h: "problem_type (two_balls 2 3 1 0) = COLLISION"
    "objects (two_balls 2 3 1 0)
       = \<lparr>name = ''Ball A'', mass = 2, velocity = VNum 3\<rparr>
         # \<lparr>name = ''Ball B'', mass = 1, velocity = VNum 0\<rparr> # []"
    "0 < mass \<lparr>name = ''Ball A'', mass = 2, velocity = VNum 3\<rparr>"
    "0 < mass \<lparr>name = ''Ball B'', mass = 1, velocity = VNum 0\<rparr>"
    "first_component (velocity \<lparr>name = ''Ball A'', mass = 2, velocity = VNum 3\<rparr>) = Inr 3"
    "first_component (velocity \<lparr>name = ''Ball B'', mass = 1, velocity = VNum 0\<rparr>) = Inr 0"
    by (simp_all add: two_balls_def)
  from collision_conserves_momentum [OF h] h(1) show ?thesis by simp
qed

text \<open>
  Over exact arithmetic the closed form of the solver exchanges the velocities of two
  objects of the same positive mass; the simulator exchanges them without computing.
\<close>

lemma equal_masses_exchange_exact:
  assumes "problem_type problem = COLLISION" and "objects problem = a # b # rest"
    and "mass a = mass b" and "0 < mass a"
    and "first_component (velocity a) = Inr va" and "first_component (velocity b) = Inr vb"
  shows "solve_problem problem
           = Inr \<lparr>answer = Lst [Num vb, Num va], unit = Str ''m/s'', solution_method = ''analytical'',
                  confidence = 1\<rparr>
         \<and> simulate eng problem
           = Some [(''velocity_a_final'', Num vb), (''velocity_b_final'', Num va)]"
proof -
  have "solve_problem problem
      = Inr \<lparr>answer = Lst [Num vb, Num va], unit = Str ''m/s'', solution_method = ''analytical'',
             confidence = 1\<rparr>"
    using assms
    by (simp add: solve_problem_def solve_dispatch_def solve_collision_def
        solve_collision_try_def dict_item_def Let_def)
  moreover have "simulate eng problem
      = Some [(''velocity_a_final'', Num vb), (''velocity_b_final'', Num va)]"
    using assms by (simp add: simulate_def index_def simulate_collision_def)
  ultimately show ?thesis by blast
qed

lemma ulp_from_eq:
  "k \<le> n \<Longrightarrow> 0 < u \<Longrightarrow> \<bar>x\<bar> < significand_limit * (2 ^ k * u) \<Longrightarrow>
     (\<And>i. k = Suc i \<Longrightarrow> significand_limit * (2 ^ i * u) \<le> \<bar>x\<bar>) \<Longrightarrow>
     ulp_from n u x = 2 ^ k * u"
proof (induction n arbitrary: k u)
  case 0
  then show ?case by simp
next
  case (Suc n)
  have L: "0 < significand_limit" by (simp add: significand_limit_def)
  show ?case
  proof (cases k)
    case 0
    with Suc.prems(3) show ?thesis by simp
  next
    case (Suc j)
    have below: "significand_limit * (2 ^ j * u) \<le> \<bar>x\<bar>"
      using Suc.prems(4) [OF Suc] .
    have "u \<le> 2 ^ j * u"
      using Suc.prems(2) by (simp add: mult_le_cancel_right1)
    then have "significand_limit * u \<le> significand_limit * (2 ^ j * u)"
      using L by (simp only: mult_le_cancel_left_pos)
    with below have notless: "\<not> \<bar>x\<bar> < significand_limit * u" by linarith
    have "ulp_from n (2 * u) x = 2 ^ j * (2 * u)"
    proof (rule Suc.IH)
      show "j \<le> n" using Suc.prems(1) Suc by simp
      show "0 < 2 * u" using Suc.prems(2) by simp
      show "\<bar>x\<bar> < significand_limit * (2 ^ j * (2 * u))"
        using Suc.prems(3) Suc by (simp add: mult_ac)
      show "significand_limit * (2 ^ i * (2 * u)) \<le> \<bar>x\<bar>" if "j = Suc i" for i
        using below that by (simp add: mult_ac)
    qed
    with notless Suc show ?thesis by (simp add: mult_ac)
  qed
qed

lemma power_two_split: "j \<le> N \<Longrightarrow> (2::real) ^ (N - j) * (1 / 2 ^ N) = 1 / 2 ^ j"
  by (simp add: power_diff)

lemma ulp_eq:
  assumes "j \<le> min_exponent" and "significand_limit \<le> 2 * (\<bar>x\<bar> * 2 ^ j)"
    and "\<bar>x\<bar> * 2 ^ j < significand_limit"
  shows "ulp x = 1 / 2 ^ j"
proof -
  have u: "2 ^ (min_exponent - j) * smallest_ulp = 1 / 2 ^ j"
    unfolding smallest_ulp_def using assms(1) by (rule power_two_split)
  have pos: "0 < smallest_ulp" by (simp add: smallest_ulp_def)
  have lt: "\<bar>x\<bar> < significand_limit * (2 ^ (min_exponent - j) * smallest_ulp)"
    unfolding u using assms(3) by (simp add: field_simps)
  have ge: "significand_limit * (2 ^ i * smallest_ulp) \<le> \<bar>x\<bar>" if "min_exponent - j = Suc i" for i
  proof -
    have "2 * (2 ^ i * smallest_ulp) = 1 / 2 ^ j"
      using u that by simp
    then have w: "2 ^ i * smallest_ulp = 1 / (2 * 2 ^ j)" by simp
    have "significand_limit * (1 / (2 * 2 ^ j)) \<le> \<bar>x\<bar>"
      using assms(2) by (simp add: field_simps)
    then show ?thesis by (simp only: w)
  qed
  have "min_exponent - j \<le> 2045" by (simp add: min_exponent_def)
  from ulp_from_eq [OF this pos lt ge] show ?thesis
    by (simp add: ulp_def u)
qed

lemma double_eq:
  assumes "j \<le> min_exponent" and "significand_limit \<le> 2 * (\<bar>x\<bar> * 2 ^ j)"
    and "\<bar>x\<bar> * 2 ^ j < significand_limit"
    and "round_half_even (x * 2 ^ j) = m"
  shows "double x = of_int m / 2 ^ j"
  using assms(4) by (simp add: double_def ulp_eq [OF assms(1-3)])

lemma double_zero: "double 0 = 0"
  by (simp add: double_def round_half_even_def)

lemma double_six: "double 6 = 6"
proof -
  have "double 6 = of_int 6755399441055744 / 2 ^ 50"
    by (rule double_eq)
       (simp_all add: min_exponent_def significand_limit_def round_half_even_def Let_def)
  then show ?thesis by simp
qed

lemma double_seven_tenths: "double (7 / 10) = 6305039478318694 / 2 ^ 53"
proof -
  have "double (7 / 10) = of_int 6305039478318694 / 2 ^ 53"
    by (rule double_eq)
       (simp_all add: min_exponent_def significand_limit_def round_half_even_def Let_def)
  then show ?thesis by simp
qed

lemma double_one_tenth: "double (1 / 10) = 7205759403792794 / 2 ^ 56"
proof -
  have "double (1 / 10) = of_int 7205759403792794 / 2 ^ 56"
    by (rule double_eq)
       (simp_all add: min_exponent_def significand_limit_def round_half_even_def Let_def)
  then show ?thesis by simp
qed

lemma six_times_seven_tenths:
  "double (6 * (6305039478318694 / 2 ^ 53)) = 4728779608739020 / 2 ^ 50"
proof -
  have "double (6 * (6305039478318694 / 2 ^ 53)) = of_int 4728779608739020 / 2 ^ 50"
    by (rule double_eq)
       (simp_all add: min_exponent_def significand_limit_def round_half_even_def Let_def)
  then show ?thesis by simp
qed

lemma sum_a: "double (0 + 4728779608739020 / 2 ^ 50) = 4728779608739020 / 2 ^ 50"
proof -
  have "double (0 + 4728779608739020 / 2 ^ 50) = of_int 4728779608739020 / 2 ^ 50"
    by (rule double_eq)
       (simp_all add: min_exponent_def significand_limit_def round_half_even_def Let_def)
  then show ?thesis by simp
qed

lemma quotient_a: "double (4728779608739020 / 2 ^ 50 / 6) = 6305039478318693 / 2 ^ 53"
proof -
  have "double (4728779608739020 / 2 ^ 50 / 6) = of_int 6305039478318693 / 2 ^ 53"
    by (rule double_eq)
       (simp_all add: min_exponent_def significand_limit_def round_half_even_def Let_def)
  then show ?thesis by simp
qed

lemma six_times_one_tenth:
  "double (6 * (7205759403792794 / 2 ^ 56)) = 5404319552844596 / 2 ^ 53"
proof -
  have "double (6 * (7205759403792794 / 2 ^ 56)) = of_int 5404319552844596 / 2 ^ 53"
    by (rule double_eq)
       (simp_all add: min_exponent_def significand_limit_def round_half_even_def Let_def)
  then show ?thesis by simp
qed

lemma sum_b: "double (0 + 5404319552844596 / 2 ^ 53) = 5404319552844596 / 2 ^ 53"
proof -
  have "double (0 + 5404319552844596 / 2 ^ 53) = of_int 5404319552844596 / 2 ^ 53"
    by (rule double_eq)
       (simp_all add: min_exponent_def significand_limit_def round_half_even_def Let_def)
  then show ?thesis by simp
qed

lemma quotient_b: "double (5404319552844596 / 2 ^ 53 / 6) = 7205759403792795 / 2 ^ 56"
proof -
  have "double (5404319552844596 / 2 ^ 53 / 6) = of_int 7205759403792795 / 2 ^ 56"
    by (rule double_eq)
       (simp_all add: min_exponent_def significand_limit_def round_half_even_def Let_def)
  then show ?thesis by simp
qed

lemma solve_collision_double_positive:
  assumes "0 < mass_a" and "0 < mass_b" and "0 < double (mass_a + mass_b)"
  shows "solve_collision_double mass_a mass_b (VNum va) (VNum vb)
     = Inr [(''velocity_a_final'',
             Num (double (double (double (double (mass_a - mass_b) * va)
                                  + double (double (2 * mass_b) * vb)) / double (mass_a + mass_b)))),
            (''velocity_b_final'',
             Num (double (double (double (double (mass_b - mass_a) * vb)
                                  + double (double (2 * mass_a) * va)) / double (mass_a + mass_b)))),
            (''mass_a'', Num mass_a), (''mass_b'', Num mass_b),
            (''velocity_a'', Num va), (''velocity_b'', Num vb),
            (''answer'',
             Lst [Num (double (double (double (double (mass_a - mass_b) * va)
                                       + double (double (2 * mass_b) * vb)) / double (mass_a + mass_b))),
                  Num (double (double (double (double (mass_b - mass_a) * vb)
                                       + double (double (2 * mass_a) * va)) / double (mass_a + mass_b)))]),
            (''unit'', Str ''m/s'')]"
  using assms by (simp add: solve_collision_double_def Let_def)

text \<open>
  Claim C8.  The claim asks that for equal positive masses the analytical solver, like
  the simulator, returns exactly the exchanged velocities.  \<open>_solve_collision\<close> has no
  branch for equal masses and evaluates \<open>((mA - mB) \<cdot> vA + 2 \<cdot> mB \<cdot> vB) / (mA + mB)\<close> in
  doubles: for masses 3 and 3 and velocities 0.1 and 0.7 the product \<open>6 \<cdot> 0.7\<close> is rounded
  down and the quotient is the double below 0.7, and the second velocity is the double
  above 0.1, so the answer is not the exchange.
\<close>

theorem solver_misses_exchange_in_doubles:
  "solve_collision_double 3 3 (VNum (double (1 / 10))) (VNum (double (7 / 10)))
     = Inr [(''velocity_a_final'', Num (6305039478318693 / 2 ^ 53)),
            (''velocity_b_final'', Num (7205759403792795 / 2 ^ 56)),
            (''mass_a'', Num 3), (''mass_b'', Num 3),
            (''velocity_a'', Num (double (1 / 10))),
            (''velocity_b'', Num (double (7 / 10))),
            (''answer'', Lst [Num (6305039478318693 / 2 ^ 53), Num (7205759403792795 / 2 ^ 56)]),
            (''unit'', Str ''m/s'')]
   \<and> double (7 / 10) = 6305039478318694 / 2 ^ 53
   \<and> double (1 / 10) = 7205759403792794 / 2 ^ 56"
proof -
  have diff: "double (3 - 3) = 0" by (simp add: double_zero)
  have twice: "double (2 * 3) = 6" using double_six by simp
  have total: "double (3 + 3) = 6" using double_six by simp
  have va: "double (double (double (double (3 - 3) * double (1 / 10))
              + double (double (2 * 3) * double (7 / 10))) / double (3 + 3))
            = 6305039478318693 / 2 ^ 53"
    by (simp only: diff twice total double_seven_tenths mult_zero_left double_zero
        six_times_seven_tenths sum_a quotient_a)
  have vb: "double (double (double (double (3 - 3) * double (7 / 10))
              + double (double (2 * 3) * double (1 / 10))) / double (3 + 3))
            = 7205759403792795 / 2 ^ 56"
    by (simp only: diff twice total double_one_tenth mult_zero_left double_zero
        six_times_one_tenth sum_b quotient_b)
  have "(0::real) < 3" "0 < double (3 + 3)" by (simp_all add: double_six)
  from solve_collision_double_positive [OF this(1) this(1) this(2), of "double (1 / 10)" "double (7 / 10)"]
  have "solve_collision_double 3 3 (VNum (double (1 / 10))) (VNum (double (7 / 10)))
     = Inr [(''velocity_a_final'', Num (6305039478318693 / 2 ^ 53)),
            (''velocity_b_final'', Num (7205759403792795 / 2 ^ 56)),
            (''mass_a'', Num 3), (''mass_b'', Num 3),
            (''velocity_a'', Num (double (1 / 10))),
            (''velocity_b'', Num (double (7 / 10))),
            (''answer'', Lst [Num (6305039478318693 / 2 ^ 53), Num (7205759403792795 / 2 ^ 56)]),
            (''unit'', Str ''m/s'')]"
    by (simp only: va vb)
  with double_seven_tenths double_one_tenth show ?thesis by blast
qed

section \<open>Projectiles\<close>

lemma projectile_level_ground:
  assumes "0 \<le> initial_velocity * sin (radians angle)"
  shows "solve_projectile_motion initial_velocity angle 0
     = (let v0x = initial_velocity * cos (radians angle);
            v0y = initial_velocity * sin (radians angle);
            t = 2 * v0y / GRAVITY
        in [(''range'', Num (v0x * t)), (''time_flight'', Num t),
            (''max_height'', Num (v0y * (v0y / GRAVITY) - 0.5 * GRAVITY * (v0y / GRAVITY)\<^sup>2)),
            (''final_velocity'', Num (sqrt (v0x\<^sup>2 + (v0y - GRAVITY * t)\<^sup>2))),
            (''final_velocity_x'', Num v0x), (''final_velocity_y'', Num (v0y - GRAVITY * t)),
            (''initial_velocity'', Num initial_velocity), (''angle'', Num angle),
            (''height'', Num 0)])"
proof -
  let ?v0y = "initial_velocity * sin (radians angle)"
  have root: "sqrt ((- ?v0y)\<^sup>2 - 4 * (0.5 * GRAVITY) * - 0) = ?v0y"
    using assms by simp
  have t: "(- (- ?v0y) + ?v0y) / (2 * (0.5 * GRAVITY)) = 2 * ?v0y / GRAVITY"
    by simp
  have nonneg: "\<not> 2 * ?v0y / GRAVITY < 0"
    using assms by (simp add: GRAVITY_def divide_less_0_iff)
  have disc: "\<not> (- ?v0y)\<^sup>2 - 4 * (0.5 * GRAVITY) * - 0 < 0"
    by simp
  show ?thesis
    unfolding solve_projectile_motion_def Let_def root t
    using nonneg disc by simp
qed

lemma projectile_downward:
  assumes "initial_velocity * sin (radians angle) \<le> 0"
  shows "map_of (solve_projectile_motion initial_velocity angle 0) ''range'' = Some (Num 0)"
proof -
  let ?v0y = "initial_velocity * sin (radians angle)"
  have root: "sqrt ((- ?v0y)\<^sup>2 - 4 * (0.5 * GRAVITY) * - 0) = - ?v0y"
    using assms by simp
  show ?thesis
    unfolding solve_projectile_motion_def Let_def root
    by simp
qed

lemma sin_minus_45: "sin (radians (- 45)) = - (sqrt 2 / 2)"
proof -
  have "radians (- 45) = - (pi / 4)" by (simp add: radians_def)
  then show ?thesis by (simp add: sin_45)
qed

text \<open>
  Claim C9, as stated: for every projectile input with launch height 0 and positive
  initial velocity the solver's range is \<open>v0\<^sup>2 \<cdot> sin(2\<theta>) / g\<close>.  For a launch angle of -45
  degrees the root taken for the time of flight is 0, so the range is 0, while the
  closed form is negative.
\<close>

theorem downward_launch_range_is_zero:
  "map_of (solve_projectile_motion 1 (- 45) 0) ''range'' = Some (Num 0)
   \<and> closed_form_range 1 (- 45) = - (1 / GRAVITY)"
proof -
  have "(1::real) * sin (radians (- 45)) \<le> 0"
    by (simp add: sin_minus_45)
  from projectile_downward [OF this]
  have r: "map_of (solve_projectile_motion 1 (- 45) 0) ''range'' = Some (Num 0)" .
  have "2 * radians (- 45) = - (pi / 2)" by (simp add: radians_def)
  then have "closed_form_range 1 (- 45) = - (1 / GRAVITY)"
    by (simp add: closed_form_range_def)
  with r show ?thesis by blast
qed

text \<open>
  Claim C9, amended.  For every projectile input with launch height 0, positive initial
  velocity and a launch angle \<open>\<theta>\<close> with \<open>sin \<theta> \<ge> 0\<close> (0 to 180 degrees), the solver's
  range is \<open>v0\<^sup>2 \<cdot> sin(2\<theta>) / g\<close>, the time of flight being \<open>2 \<cdot> v0 \<cdot> sin \<theta> / g\<close>.
\<close>

theorem level_ground_range_closed_form:
  assumes "0 < initial_velocity" and "0 \<le> sin (radians angle)"
  shows "map_of (solve_projectile_motion initial_velocity angle 0) ''range''
           = Some (Num (initial_velocity\<^sup>2 * sin (2 * radians angle) / GRAVITY))
       \<and> map_of (solve_projectile_motion initial_velocity angle 0) ''time_flight''
           = Some (Num (2 * initial_velocity * sin (radians angle) / GRAVITY))"
proof -
  from assms have "0 \<le> initial_velocity * sin (radians angle)" by simp
  from projectile_level_ground [OF this] show ?thesis
    by (simp add: Let_def sin_double power2_eq_square)
qed

theorem level_ground_range_closed_form_witness:
  "(0::real) < 20 \<and> 0 \<le> sin (radians 45)
   \<and> map_of (solve_projectile_motion 20 45 0) ''range'' = Some (Num (400 / GRAVITY))"
proof -
  have r: "radians 45 = pi / 4" by (simp add: radians_def)
  have h: "(0::real) < 20" "0 \<le> sin (radians 45)"
    by (simp_all add: r sin_45)
  have "sin (2 * radians 45) = 1" by (simp add: r)
  with level_ground_range_closed_form [OF h] h show ?thesis by simp
qed

lemma projectile_loop_result:
  "\<forall>b. step b \<noteq> None \<Longrightarrow>
     projectile_loop step n b f0
       = Some \<lparr>max_height = foldl max (max_height f0)
                               (map pos_z (path step (steps_flown step n b) b)),
               range_x = foldl max (range_x f0) (map pos_x (path step (steps_flown step n b) b)),
               time_flight = time_flight f0 + real (steps_flown step n b) * time_step,
               samples = samples f0 + steps_flown step n b\<rparr>"
proof (induction n arbitrary: b f0)
  case 0
  show ?case by simp
next
  case (Suc n)
  from Suc.prems obtain b' where b': "step b = Some b'" by auto
  show ?case
  proof (cases "pos_z b' \<le> radius")
    case True
    then show ?thesis by (simp add: b' Let_def)
  next
    case False
    then show ?thesis
      by (simp add: b' Let_def Suc.IH [OF Suc.prems] algebra_simps)
  qed
qed

lemma steps_flown_bounds:
  "\<forall>b. step b \<noteq> None \<Longrightarrow>
     steps_flown step n b \<le> n \<and> (0 < n \<longrightarrow> 0 < steps_flown step n b)
     \<and> length (path step (steps_flown step n b) b) = steps_flown step n b"
proof (induction n arbitrary: b)
  case 0
  show ?case by simp
next
  case (Suc n)
  from Suc.prems obtain b' where b': "step b = Some b'" by auto
  from Suc.IH [OF Suc.prems, of b'] show ?case
    by (simp add: b')
qed

lemma steps_flown_landing:
  "\<forall>b. step b \<noteq> None \<Longrightarrow> lands_within step n b \<Longrightarrow>
     pos_z (last (path step (steps_flown step n b) b)) \<le> radius
     \<and> (\<forall>p \<in> set (butlast (path step (steps_flown step n b) b)). radius < pos_z p)"
proof (induction n arbitrary: b)
  case 0
  then show ?case by simp
next
  case (Suc n)
  from Suc.prems(1) obtain b' where b': "step b = Some b'" by auto
  show ?case
  proof (cases "pos_z b' \<le> radius")
    case True
    then show ?thesis by (simp add: b')
  next
    case False
    with Suc.prems(2) b' have l: "lands_within step n b'" by simp
    then have "n \<noteq> 0" by (cases n) auto
    with steps_flown_bounds [OF Suc.prems(1), of n b']
    have ne: "path step (steps_flown step n b') b' \<noteq> []" by auto
    from Suc.IH [OF Suc.prems(1) l] False ne show ?thesis
      by (simp add: b')
  qed
qed

lemma steps_flown_no_landing:
  "\<forall>b. step b \<noteq> None \<Longrightarrow> \<not> lands_within step n b \<Longrightarrow>
     steps_flown step n b = n \<and> (\<forall>p \<in> set (path step n b). radius < pos_z p)"
proof (induction n arbitrary: b)
  case 0
  then show ?case by simp
next
  case (Suc n)
  from Suc.prems(1) obtain b' where b': "step b = Some b'" by auto
  from Suc.prems(2) b' have nl: "\<not> pos_z b' \<le> radius" "\<not> lands_within step n b'" by auto
  from Suc.IH [OF Suc.prems(1) nl(2)] nl(1) show ?case
    by (simp add: b')
qed

lemma clamped_step_fall:
  "pos_z b - max_coordinate_velocity * time_step \<le> pos_z (clamped_step b)"
proof -
  have "- max_coordinate_velocity \<le> clamp_velocity v" for v
    by (simp add: clamp_velocity_def)
  then have "- max_coordinate_velocity * time_step \<le> clamp_velocity v * time_step" for v
    by (simp add: time_step_def)
  then show ?thesis
    by (simp add: clamped_step_def pos_z_def Let_def split: prod.splits)
qed

lemma no_landing_from_height:
  "radius + real n * (max_coordinate_velocity * time_step) < pos_z b \<Longrightarrow>
     \<not> lands_within (\<lambda>b. Some (clamped_step b)) n b"
proof (induction n arbitrary: b)
  case 0
  show ?case by simp
next
  case (Suc n)
  from Suc.prems clamped_step_fall [of b]
  have next_z: "radius + real n * (max_coordinate_velocity * time_step) < pos_z (clamped_step b)"
    by (simp add: algebra_simps)
  have "0 \<le> real n * (max_coordinate_velocity * time_step)"
    by (simp add: max_coordinate_velocity_def time_step_def)
  with next_z have "radius < pos_z (clamped_step b)" by simp
  with Suc.IH [OF next_z] show ?case by simp
qed

text \<open>
  Claim C5, as stated: a projectile simulation returns its result set after the
  projectile has crossed the ground plane, or signals a timeout when the budget of
  10000 steps is exhausted before landing.  Dropped from 10 km, the projectile is
  still in the air after 10000 steps, and the simulator returns a result.
\<close>

theorem exhausted_budget_returns_result:
  "\<not> lands_within (stepSimulation reference_engine OverGround) max_steps
       (projectile_start 0 0 10000)
   \<and> simulate_projectile reference_engine 0 0 10000 \<noteq> None"
proof -
  have step: "stepSimulation reference_engine OverGround = (\<lambda>b. Some (clamped_step b))"
    by (simp add: reference_engine_def)
  have "radius + real max_steps * (max_coordinate_velocity * time_step)
          < pos_z (projectile_start 0 0 10000)"
    by (simp add: projectile_start_def pos_z_def radius_def max_steps_def
        max_coordinate_velocity_def time_step_def Let_def)
  from no_landing_from_height [OF this]
  have nl: "\<not> lands_within (\<lambda>b. Some (clamped_step b)) max_steps (projectile_start 0 0 10000)" .
  have "0 < steps_flown (\<lambda>b. Some (clamped_step b)) max_steps (projectile_start 0 0 10000)"
    using steps_flown_bounds [of "\<lambda>b. Some (clamped_step b)" max_steps] by (simp add: max_steps_def)
  then have "simulate_projectile reference_engine 0 0 10000 \<noteq> None"
    by (simp add: simulate_projectile_def reference_engine_def projectile_loop_result)
  with nl step show ?thesis by simp
qed

text \<open>
  Claim C5, amended.  On an engine that connects and never raises, every projectile
  simulation returns the result set \<open>{range, max_height, time_flight}\<close>, measured over
  the steps up to and including the first one that leaves the projectile at or below
  the ground plane (at a height of at most its radius); when the budget of 10000 steps
  is exhausted before that, the result set measured over all 10000 steps is returned,
  and no timeout is signalled.  The range is the greatest horizontal position read (at
  least 0), the maximal height the greatest height read (at least the launch height),
  the time of flight the number of steps times the time step.
\<close>

theorem projectile_simulation_returns:
  assumes "connects eng" and "\<forall>b. stepSimulation eng OverGround b \<noteq> None"
  shows "let step = stepSimulation eng OverGround;
             start = projectile_start initial_velocity angle height;
             k = steps_flown step max_steps start;
             flown = path step k start
         in simulate_projectile eng initial_velocity angle height
              = Some [(''range'', Num (foldl max 0 (map pos_x flown))),
                      (''max_height'', Num (foldl max height (map pos_z flown) - radius)),
                      (''time_flight'', Num (real k * time_step))]
            \<and> length flown = k \<and> 0 < k \<and> k \<le> max_steps
            \<and> (if lands_within step max_steps start
                then pos_z (last flown) \<le> radius \<and> (\<forall>p \<in> set (butlast flown). radius < pos_z p)
                else k = max_steps \<and> (\<forall>p \<in> set flown. radius < pos_z p))"
proof -
  let ?step = "stepSimulation eng OverGround"
  let ?start = "projectile_start initial_velocity angle height"
  let ?k = "steps_flown ?step max_steps ?start"
  have pos: "0 < max_steps" by (simp add: max_steps_def)
  from steps_flown_bounds [OF assms(2), of max_steps ?start] pos
  have k: "?k \<le> max_steps" "0 < ?k" "length (path ?step ?k ?start) = ?k" by auto
  have sim: "simulate_projectile eng initial_velocity angle height
      = Some [(''range'', Num (foldl max 0 (map pos_x (path ?step ?k ?start)))),
              (''max_height'', Num (foldl max height (map pos_z (path ?step ?k ?start)) - radius)),
              (''time_flight'', Num (real ?k * time_step))]"
    using assms(1) k(2) by (simp add: simulate_projectile_def projectile_loop_result [OF assms(2)])
  show ?thesis
  proof (cases "lands_within ?step max_steps ?start")
    case True
    from steps_flown_landing [OF assms(2) True] sim k True show ?thesis
      by (simp add: Let_def)
  next
    case False
    from steps_flown_no_landing [OF assms(2) False] sim k False show ?thesis
      by (simp add: Let_def)
  qed
qed

theorem projectile_simulation_returns_witness:
  "connects reference_engine \<and> (\<forall>b. stepSimulation reference_engine OverGround b \<noteq> None)
   \<and> (let step = stepSimulation reference_engine OverGround;
           start = projectile_start 0 0 10000;
           k = steps_flown step max_steps start;
           flown = path step k start
       in simulate_projectile reference_engine 0 0 10000
              = Some [(''range'', Num (foldl max 0 (map pos_x flown))),
                      (''max_height'', Num (foldl max 10000 (map pos_z flown) - radius)),
                      (''time_flight'', Num (real k * time_step))]
          \<and> k = max_steps)"
proof -
  have h: "connects reference_engine"
    "\<forall>b. stepSimulation reference_engine OverGround b \<noteq> None"
    by (simp_all add: reference_engine_def)
  have step: "stepSimulation reference_engine OverGround = (\<lambda>b. Some (clamped_step b))"
    by (simp add: reference_engine_def)
  have "radius + real max_steps * (max_coordinate_velocity * time_step)
          < pos_z (projectile_start 0 0 10000)"
    by (simp add: projectile_start_def pos_z_def radius_def max_steps_def
        max_coordinate_velocity_def time_step_def Let_def)
  from no_landing_from_height [OF this]
  have nl: "\<not> lands_within (stepSimulation reference_engine OverGround) max_steps
              (projectile_start 0 0 10000)"
    by (simp add: step)
  from projectile_simulation_returns [OF h, of 0 0 10000] nl h show ?thesis
    by (simp add: Let_def)
qed

end
